theory Spec2Isabelle
  imports Complex_Main
begin

section \<open>Release scoring engine of Cinephage\<close>

text \<open>
  A shallow embedding of \<^verbatim>\<open>src/lib/server/scoring/scorer.ts\<close>: \<^verbatim>\<open>scoreRelease\<close>,
  \<^verbatim>\<open>applyMutualExclusivity\<close>, \<^verbatim>\<open>calculateFormatScores\<close>, \<^verbatim>\<open>categoryToBreakdownKey\<close>,
  \<^verbatim>\<open>buildBreakdown\<close>, \<^verbatim>\<open>compareReleases\<close> and \<^verbatim>\<open>isUpgrade\<close>. The condition matcher
  (\<^verbatim>\<open>matcher.ts\<close>) is not among the sources; its three operations are modelled from the
  specification and marked so.
\<close>

subsection \<open>JavaScript numbers\<close>

text \<open>
  \<^verbatim>\<open>totalScore\<close> can be \<^verbatim>\<open>-Infinity\<close>, and subtracting two such values gives \<^verbatim>\<open>NaN\<close>,
  so the special values of a JavaScript number are constructors of their own. Finite
  values are exact rationals: rounding of the binary representation is not modelled.
\<close>

datatype number = NaN | NegInf | PosInf | Fin rat

fun js_sub :: "number \<Rightarrow> number \<Rightarrow> number" where
  "js_sub NaN _ = NaN"
| "js_sub _ NaN = NaN"
| "js_sub (Fin a) (Fin b) = Fin (a - b)"
| "js_sub (Fin a) PosInf = NegInf"
| "js_sub (Fin a) NegInf = PosInf"
| "js_sub PosInf PosInf = NaN"
| "js_sub PosInf _ = PosInf"
| "js_sub NegInf NegInf = NaN"
| "js_sub NegInf _ = NegInf"

fun js_lt :: "number \<Rightarrow> number \<Rightarrow> bool" where
  "js_lt NaN _ = False"
| "js_lt _ NaN = False"
| "js_lt (Fin a) (Fin b) = (a < b)"
| "js_lt NegInf NegInf = False"
| "js_lt NegInf _ = True"
| "js_lt _ NegInf = False"
| "js_lt PosInf _ = False"
| "js_lt (Fin a) PosInf = True"

definition js_gt :: "number \<Rightarrow> number \<Rightarrow> bool" where
  "js_gt a b = js_lt b a"

fun js_eq :: "number \<Rightarrow> number \<Rightarrow> bool" where
  "js_eq NaN _ = False"
| "js_eq _ NaN = False"
| "js_eq a b = (a = b)"

definition js_ge :: "number \<Rightarrow> number \<Rightarrow> bool" where
  "js_ge a b = (js_lt b a \<or> js_eq a b)"

fun js_abs :: "number \<Rightarrow> number" where
  "js_abs NaN = NaN"
| "js_abs NegInf = PosInf"
| "js_abs PosInf = PosInf"
| "js_abs (Fin a) = Fin \<bar>a\<bar>"

subsection \<open>Strings and template literals\<close>

definition digit_char :: "nat \<Rightarrow> char" where
  "digit_char d = char_of (48 + d)"

fun show_nat :: "nat \<Rightarrow> string" where
  "show_nat n = (if n < 10 then [digit_char n] else show_nat (n div 10) @ [digit_char (n mod 10)])"

declare show_nat.simps [simp del]

text \<open>
  A template literal is a list of parts. An interpolated number whose rendering is left
  to the runtime's number-to-string conversion stays a \<open>Num\<close> part; everything the code
  renders itself is a \<open>Lit\<close> part.
\<close>

datatype part = Lit string | Num rat

type_synonym message = "part list"

text \<open>
  \<^verbatim>\<open>Number.prototype.toFixed(f)\<close>: the integer \<open>n\<close> nearest to \<open>x * 10^f\<close> (the larger
  one on a tie), written with \<open>f\<close> decimals; a negative \<open>x\<close> is rendered as a minus sign
  and its absolute value; from \<open>10^21\<close> on the result is the plain number-to-string
  conversion.
\<close>

definition pad_zeros :: "nat \<Rightarrow> string \<Rightarrow> string" where
  "pad_zeros k s = replicate (k - length s) (CHR ''0'') @ s"

definition fixed_digits :: "nat \<Rightarrow> rat \<Rightarrow> string" where
  "fixed_digits f x =
     (let n = nat \<lfloor>x * 10 ^ f + 1 / 2\<rfloor>;
          m = (if f = 0 then show_nat n else pad_zeros (f + 1) (show_nat n));
          k = length m
      in if f = 0 then m else take (k - f) m @ ''.'' @ drop (k - f) m)"

definition toFixed :: "nat \<Rightarrow> rat \<Rightarrow> part" where
  "toFixed f x =
     (if \<bar>x\<bar> \<ge> 10 ^ 21 then Num x
      else if x < 0 then Lit (''-'' @ fixed_digits f (- x))
      else Lit (fixed_digits f x))"

fun join_str :: "string \<Rightarrow> string list \<Rightarrow> string" where
  "join_str sep [] = []"
| "join_str sep [x] = x"
| "join_str sep (x # y # ys) = x @ sep @ join_str sep (y # ys)"

definition toLowerChar :: "char \<Rightarrow> char" where
  "toLowerChar c =
     (if 65 \<le> (of_char c :: nat) \<and> (of_char c :: nat) \<le> 90 then char_of (of_char c + (32::nat)) else c)"

definition toLowerCase :: "string \<Rightarrow> string" where
  "toLowerCase s = map toLowerChar s"

fun starts_with :: "string \<Rightarrow> string \<Rightarrow> bool" where
  "starts_with [] s = True"
| "starts_with (p # ps) [] = False"
| "starts_with (p # ps) (c # cs) = (p = c \<and> starts_with ps cs)"

fun includes_str :: "string \<Rightarrow> string \<Rightarrow> bool" where
  "includes_str sub [] = (sub = [])"
| "includes_str sub (c # cs) = (starts_with sub (c # cs) \<or> includes_str sub cs)"

subsection \<open>Data model\<close>

datatype FormatCategory =
    Cat_resolution | Cat_source | Cat_codec | Cat_audio | Cat_hdr | Cat_streaming
  | Cat_release_group_tier | Cat_micro | Cat_low_quality | Cat_banned | Cat_enhancement
  | Cat_other

datatype ReleaseFlag = IsRemux | IsRepack | IsProper | Is3d

text \<open>
  A condition's \<^verbatim>\<open>type\<close> discriminator together with its one type-specific payload field.
\<close>

datatype ConditionPayload =
    P_resolution string
  | P_source string
  | P_release_title string
  | P_release_group string
  | P_codec string
  | P_audio string
  | P_hdr "string option"
  | P_streaming_service string
  | P_flag ReleaseFlag
  | P_indexer string

record FormatCondition =
  condition_name :: string
  payload :: ConditionPayload
  required :: bool
  negate :: bool

record CustomFormat =
  format_id :: string
  format_name :: string
  description :: string
  category :: FormatCategory
  tags :: "string list"
  conditions :: "FormatCondition list"

text \<open>
  \<^verbatim>\<open>hdr\<close> is \<open>None\<close> for SDR; \<^verbatim>\<open>releaseGroup\<close>, \<^verbatim>\<open>streamingService\<close> and \<^verbatim>\<open>year\<close> may be
  absent. A flag is \<open>None\<close> when the attribute is undefined.
\<close>

record ReleaseAttributes =
  title :: string
  cleanTitle :: string
  year :: "int option"
  resolution :: string
  source :: string
  codec :: string
  hdr :: "string option"
  audio :: string
  releaseGroup :: "string option"
  streamingService :: "string option"
  isRemux :: "bool option"
  isRepack :: "bool option"
  isProper :: "bool option"
  is3d :: "bool option"
  languages :: "string list"

record ConditionResult =
  condition :: FormatCondition
  matches :: bool
  rawMatch :: bool

text \<open>
  The result of \<^verbatim>\<open>evaluateFormat\<close>: its fields \<^verbatim>\<open>matches\<close> and \<^verbatim>\<open>conditionResults\<close> are
  \<open>format_matches\<close> and \<open>evaluated\<close> here.
\<close>

record FormatEvaluation =
  format_matches :: bool
  evaluated :: "ConditionResult list"

record MatchedFormat =
  format :: CustomFormat
  conditionResults :: "ConditionResult list"

record ScoredFormat = MatchedFormat +
  score :: int

datatype Protocol = Torrent | Usenet | Streaming

fun protocol_name :: "Protocol \<Rightarrow> string" where
  "protocol_name Torrent = ''torrent''"
| "protocol_name Usenet = ''usenet''"
| "protocol_name Streaming = ''streaming''"

text \<open>
  \<^verbatim>\<open>formatScores\<close> maps a format id to its integer score. The size limits are
  \<^verbatim>\<open>number | null | undefined\<close> in the source; both \<^verbatim>\<open>null\<close> and \<^verbatim>\<open>undefined\<close> are \<open>None\<close>.
\<close>

record ScoringProfile =
  profile_id :: string
  profile_name :: string
  formatScores :: "string \<rightharpoonup> int"
  minScore :: "rat option"
  movieMinSizeGb :: "rat option"
  movieMaxSizeGb :: "rat option"
  episodeMinSizeMb :: "rat option"
  episodeMaxSizeMb :: "rat option"
  allowedProtocols :: "Protocol list option"

datatype MediaType = Movie | Tv

record SizeValidationContext =
  mediaType :: MediaType
  isSeasonPack :: "bool option"
  episodeCount :: "int option"

datatype BreakdownKey =
    K_resolution | K_source | K_codec | K_audio | K_hdr | K_streaming
  | K_releaseGroupTier | K_banned | K_enhancement

record Bucket =
  bucket_score :: int
  bucket_formats :: "string list"

text \<open>
  The breakdown object always has exactly the nine keys and is read and written through
  a computed key, so it is a total function on the keys.
\<close>

type_synonym ScoreBreakdown = "BreakdownKey \<Rightarrow> Bucket"

definition breakdown_keys :: "BreakdownKey list" where
  "breakdown_keys =
     [K_resolution, K_source, K_codec, K_audio, K_hdr, K_streaming,
      K_releaseGroupTier, K_banned, K_enhancement]"

record ScoringResult =
  releaseName :: string
  profile :: string
  totalScore :: number
  matchedFormats :: "ScoredFormat list"
  breakdown :: ScoreBreakdown
  meetsMinimum :: bool
  isBanned :: bool
  bannedReasons :: "string list"
  sizeRejected :: bool
  sizeRejectionReason :: "message option"
  protocolRejected :: bool
  protocolRejectionReason :: "string option"

text \<open>
  What the scorer imports and this development takes as given: the regular-expression
  engine (\<open>None\<close> for a pattern that does not compile, otherwise the case-insensitive
  test of the compiled expression), \<^verbatim>\<open>parseRelease\<close> (release parser followed by the
  attribute extractor) and the format library \<^verbatim>\<open>ALL_FORMATS\<close>.
\<close>

record Env =
  regex :: "string \<Rightarrow> (string \<Rightarrow> bool) option"
  parseRelease :: "string \<Rightarrow> ReleaseAttributes"
  ALL_FORMATS :: "CustomFormat list"

subsection \<open>Condition matcher and format evaluator\<close>

text \<open>
  Modelled from the spec: \<^verbatim>\<open>getPattern\<close> of \<^verbatim>\<open>matcher.ts\<close>, which is not among the
  sources. A pattern is compiled to a case-insensitive regular expression; an invalid
  pattern does not throw and behaves as permanently non-matching. The compilation cache
  has no visible effect and is left out.
\<close>

definition getPattern :: "Env \<Rightarrow> string \<Rightarrow> (string \<Rightarrow> bool)" where
  "getPattern env p = (case regex env p of None \<Rightarrow> (\<lambda>s. False) | Some t \<Rightarrow> t)"

definition flagValue :: "ReleaseAttributes \<Rightarrow> ReleaseFlag \<Rightarrow> bool option" where
  "flagValue attrs f =
     (case f of IsRemux \<Rightarrow> isRemux attrs | IsRepack \<Rightarrow> isRepack attrs
              | IsProper \<Rightarrow> isProper attrs | Is3d \<Rightarrow> is3d attrs)"

text \<open>
  Modelled from the spec: the raw predicate of \<^verbatim>\<open>evaluateCondition\<close> of \<^verbatim>\<open>matcher.ts\<close>,
  which is not among the sources. Enum-typed conditions compare by equality; \<^verbatim>\<open>hdr\<close>
  payload \<^verbatim>\<open>null\<close> and payload \<^verbatim>\<open>"sdr"\<close> both match an absent hdr attribute; \<^verbatim>\<open>audio\<close>
  payload \<^verbatim>\<open>"atmos"\<close> also matches a title containing "atmos" in any case;
  \<^verbatim>\<open>release_title\<close> and \<^verbatim>\<open>release_group\<close> test the compiled pattern against the title
  and the release group; \<^verbatim>\<open>flag\<close> matches when the named attribute is true;
  \<^verbatim>\<open>streaming_service\<close> compares ignoring case. A condition on a missing attribute does
  not match. The spec gives no rule for \<^verbatim>\<open>indexer\<close> and the attributes carry no indexer
  name, so an indexer condition is a condition on a missing attribute.
\<close>

fun rawMatchOf :: "Env \<Rightarrow> ConditionPayload \<Rightarrow> ReleaseAttributes \<Rightarrow> bool" where
  "rawMatchOf env (P_resolution r) attrs = (r = resolution attrs)"
| "rawMatchOf env (P_source s) attrs = (s = source attrs)"
| "rawMatchOf env (P_codec c) attrs = (c = codec attrs)"
| "rawMatchOf env (P_audio a) attrs =
     (a = audio attrs \<or> (a = ''atmos'' \<and> includes_str ''atmos'' (toLowerCase (title attrs))))"
| "rawMatchOf env (P_hdr h) attrs =
     (case hdr attrs of
        None \<Rightarrow> (h = None \<or> h = Some ''sdr'')
      | Some v \<Rightarrow> (h = Some v))"
| "rawMatchOf env (P_release_title p) attrs = getPattern env p (title attrs)"
| "rawMatchOf env (P_release_group p) attrs =
     (case releaseGroup attrs of None \<Rightarrow> False | Some g \<Rightarrow> getPattern env p g)"
| "rawMatchOf env (P_flag f) attrs = (flagValue attrs f = Some True)"
| "rawMatchOf env (P_streaming_service s) attrs =
     (case streamingService attrs of
        None \<Rightarrow> False
      | Some v \<Rightarrow> toLowerCase s = toLowerCase v)"
| "rawMatchOf env (P_indexer i) attrs = False"

text \<open>
  Modelled from the spec: \<^verbatim>\<open>evaluateCondition\<close> of \<^verbatim>\<open>matcher.ts\<close>, which is not among
  the sources. \<^verbatim>\<open>rawMatch\<close> is the predicate before negation and
  \<^verbatim>\<open>matches = negate ? !rawMatch : rawMatch\<close>. The spec also says that a condition on a
  missing attribute matches as false; for a negated condition the two sentences disagree,
  and the formula is followed here. No property below depends on that case: the
  statements hold for whatever \<^verbatim>\<open>matches\<close> is, and the examples negate no condition.
\<close>

definition evaluateCondition :: "Env \<Rightarrow> FormatCondition \<Rightarrow> ReleaseAttributes \<Rightarrow> ConditionResult" where
  "evaluateCondition env c attrs =
     (let raw = rawMatchOf env (payload c) attrs
      in \<lparr>condition = c, matches = (if negate c then \<not> raw else raw), rawMatch = raw\<rparr>)"

text \<open>
  Modelled from the spec: \<^verbatim>\<open>evaluateFormat\<close> of \<^verbatim>\<open>matcher.ts\<close>, which is not among the
  sources. The conditions are partitioned into required and optional ones; all required
  ones must match, and if there is an optional one at least one of them must match.
\<close>

definition evaluateFormat :: "Env \<Rightarrow> CustomFormat \<Rightarrow> ReleaseAttributes \<Rightarrow> FormatEvaluation" where
  "evaluateFormat env f attrs =
     (let results = map (\<lambda>c. evaluateCondition env c attrs) (conditions f);
          requiredResults = filter (\<lambda>r. required (condition r)) results;
          optionalResults = filter (\<lambda>r. \<not> required (condition r)) results;
          requiredOk = list_all matches requiredResults;
          optionalOk = (optionalResults = [] \<or> list_ex matches optionalResults)
      in \<lparr>format_matches = (requiredOk \<and> optionalOk), evaluated = results\<rparr>)"

text \<open>
  Modelled from the spec: \<^verbatim>\<open>matchFormats\<close> of \<^verbatim>\<open>matcher.ts\<close>, which is not among the
  sources. It keeps the formats that matched, each with its condition trace.
\<close>

fun matchFormats :: "Env \<Rightarrow> ReleaseAttributes \<Rightarrow> CustomFormat list \<Rightarrow> MatchedFormat list" where
  "matchFormats env attrs [] = []"
| "matchFormats env attrs (f # fs) =
     (let e = evaluateFormat env f attrs
      in if format_matches e
         then \<lparr>format = f, conditionResults = evaluated e\<rparr> # matchFormats env attrs fs
         else matchFormats env attrs fs)"

subsection \<open>Mutual exclusivity of HDR formats\<close>

definition HDR_PRIORITY :: "string list" where
  "HDR_PRIORITY =
     [''hdr-dolby-vision'', ''hdr-dolby-vision-no-fallback'', ''hdr-hdr10plus'', ''hdr-hdr10'',
      ''hdr10-missing'', ''hdr-generic'', ''hdr-hlg'', ''hdr-pq'', ''hdr-missing'', ''hdr-sdr'']"

text \<open>\<^verbatim>\<open>Array.prototype.indexOf\<close>: the first index of the element, or \<open>-1\<close>.\<close>

fun indexOf :: "'a list \<Rightarrow> 'a \<Rightarrow> int" where
  "indexOf [] x = - 1"
| "indexOf (y # ys) x =
     (if y = x then 0 else (let i = indexOf ys x in if i = - 1 then - 1 else i + 1))"

definition effectivePriority :: "MatchedFormat \<Rightarrow> int" where
  "effectivePriority h =
     (let priority = indexOf HDR_PRIORITY (format_id (format h))
      in if priority = - 1 then 100 else priority)"

text \<open>
  The \<^verbatim>\<open>for (const hdr of hdrFormats)\<close> loop, on the state
  \<open>(bestHdr, bestPriority)\<close> which starts as \<open>(null, Infinity)\<close>.
\<close>

fun bestHdrLoop ::
  "MatchedFormat list \<Rightarrow> MatchedFormat option \<times> number \<Rightarrow> MatchedFormat option \<times> number" where
  "bestHdrLoop [] st = st"
| "bestHdrLoop (h # hs) (bestHdr, bestPriority) =
     (if js_lt (Fin (of_int (effectivePriority h))) bestPriority
      then bestHdrLoop hs (Some h, Fin (of_int (effectivePriority h)))
      else bestHdrLoop hs (bestHdr, bestPriority))"

definition isHdr :: "MatchedFormat \<Rightarrow> bool" where
  "isHdr mf = (category (format mf) = Cat_hdr)"

definition applyMutualExclusivity :: "MatchedFormat list \<Rightarrow> ScoringProfile \<Rightarrow> MatchedFormat list" where
  "applyMutualExclusivity matched unusedProfile =
     (let hdrFormats = filter isHdr matched;
          otherFormats = filter (\<lambda>mf. \<not> isHdr mf) matched
      in if length hdrFormats > 1
         then (case fst (bestHdrLoop hdrFormats (None, PosInf)) of
                 None \<Rightarrow> otherFormats
               | Some bestHdr \<Rightarrow> otherFormats @ [bestHdr])
         else matched)"

subsection \<open>Scores and breakdown\<close>

definition calculateFormatScores :: "MatchedFormat list \<Rightarrow> ScoringProfile \<Rightarrow> ScoredFormat list" where
  "calculateFormatScores matched p =
     map (\<lambda>mf. \<lparr>format = format mf, conditionResults = conditionResults mf,
                score = (case formatScores p (format_id (format mf)) of
                           None \<Rightarrow> 0 | Some s \<Rightarrow> s)\<rparr>) matched"

fun categoryToBreakdownKey :: "FormatCategory \<Rightarrow> BreakdownKey option" where
  "categoryToBreakdownKey Cat_resolution = Some K_resolution"
| "categoryToBreakdownKey Cat_source = Some K_source"
| "categoryToBreakdownKey Cat_codec = Some K_codec"
| "categoryToBreakdownKey Cat_audio = Some K_audio"
| "categoryToBreakdownKey Cat_hdr = Some K_hdr"
| "categoryToBreakdownKey Cat_streaming = Some K_streaming"
| "categoryToBreakdownKey Cat_enhancement = Some K_enhancement"
| "categoryToBreakdownKey Cat_banned = Some K_banned"
| "categoryToBreakdownKey Cat_release_group_tier = Some K_releaseGroupTier"
| "categoryToBreakdownKey Cat_micro = Some K_releaseGroupTier"
| "categoryToBreakdownKey Cat_low_quality = Some K_releaseGroupTier"
| "categoryToBreakdownKey Cat_other = None"

definition emptyBreakdown :: ScoreBreakdown where
  "emptyBreakdown = (\<lambda>k. \<lparr>bucket_score = 0, bucket_formats = []\<rparr>)"

text \<open>The body of the \<^verbatim>\<open>for (const mf of scoredFormats)\<close> loop of \<^verbatim>\<open>buildBreakdown\<close>.\<close>

definition addToBreakdown :: "ScoreBreakdown \<Rightarrow> ScoredFormat \<Rightarrow> ScoreBreakdown" where
  "addToBreakdown b mf =
     (case categoryToBreakdownKey (category (format mf)) of
        None \<Rightarrow> b
      | Some k \<Rightarrow>
          b(k := \<lparr>bucket_score = bucket_score (b k) + score mf,
                  bucket_formats = bucket_formats (b k) @ [format_name (format mf)]\<rparr>))"

definition buildBreakdown :: "ScoredFormat list \<Rightarrow> ScoreBreakdown" where
  "buildBreakdown scored = foldl addToBreakdown emptyBreakdown scored"

subsection \<open>Size and protocol validation\<close>

text \<open>
  Step 7 of \<^verbatim>\<open>scoreRelease\<close>, as a function to the pair
  \<open>(sizeRejected, sizeRejectionReason)\<close>. Sizes are exact rationals.
\<close>

definition movieMaxCheck :: "ScoringProfile \<Rightarrow> rat \<Rightarrow> bool \<times> message option" where
  "movieMaxCheck p fileSizeGb =
     (case movieMaxSizeGb p of
        None \<Rightarrow> (False, None)
      | Some maxSize \<Rightarrow>
          if fileSizeGb > maxSize
          then (True, Some [Lit ''Movie size '', toFixed 2 fileSizeGb,
                            Lit '' GB exceeds maximum '', Num maxSize, Lit '' GB''])
          else (False, None))"

definition validateMovieSize :: "ScoringProfile \<Rightarrow> rat \<Rightarrow> bool \<times> message option" where
  "validateMovieSize p fileSizeGb =
     (case movieMinSizeGb p of
        None \<Rightarrow> movieMaxCheck p fileSizeGb
      | Some minSize \<Rightarrow>
          if fileSizeGb < minSize
          then (True, Some [Lit ''Movie size '', toFixed 2 fileSizeGb,
                            Lit '' GB is below minimum '', Num minSize, Lit '' GB''])
          else movieMaxCheck p fileSizeGb)"

text \<open>
  \<^verbatim>\<open>!sizeContext.episodeCount || sizeContext.episodeCount <= 0\<close> holds for an absent
  count, for zero and for a negative count; then the size is set to \<open>-1\<close>.
\<close>

definition effectiveSizeMb :: "rat \<Rightarrow> SizeValidationContext \<Rightarrow> rat" where
  "effectiveSizeMb fileSizeMb ctx =
     (if isSeasonPack ctx = Some True
      then (case episodeCount ctx of
              None \<Rightarrow> - 1
            | Some n \<Rightarrow> if n = 0 \<or> n \<le> 0 then - 1 else fileSizeMb / of_int n)
      else fileSizeMb)"

definition perEpisodeSuffix :: "SizeValidationContext \<Rightarrow> string" where
  "perEpisodeSuffix ctx = (if isSeasonPack ctx = Some True then '' per episode (avg)'' else [])"

definition episodeMaxCheck ::
  "ScoringProfile \<Rightarrow> rat \<Rightarrow> SizeValidationContext \<Rightarrow> bool \<times> message option" where
  "episodeMaxCheck p eff ctx =
     (case episodeMaxSizeMb p of
        None \<Rightarrow> (False, None)
      | Some maxSizeMb \<Rightarrow>
          if eff > maxSizeMb
          then (True, Some [Lit ''Episode size '', toFixed 0 eff, Lit '' MB'',
                            Lit (perEpisodeSuffix ctx), Lit '' exceeds maximum '',
                            Num maxSizeMb, Lit '' MB''])
          else (False, None))"

text \<open>
  The TV branch. Its test \<^verbatim>\<open>!sizeRejected && effectiveSizeMb > 0\<close> is reached with
  \<^verbatim>\<open>sizeRejected\<close> still false, which leaves \<^verbatim>\<open>effectiveSizeMb > 0\<close>.
\<close>

definition validateEpisodeSize ::
  "ScoringProfile \<Rightarrow> rat \<Rightarrow> SizeValidationContext \<Rightarrow> bool \<times> message option" where
  "validateEpisodeSize p fileSizeMb ctx =
     (let eff = effectiveSizeMb fileSizeMb ctx
      in if eff > 0
         then (case episodeMinSizeMb p of
                 None \<Rightarrow> episodeMaxCheck p eff ctx
               | Some minSizeMb \<Rightarrow>
                   if eff < minSizeMb
                   then (True, Some [Lit ''Episode size '', toFixed 0 eff, Lit '' MB'',
                                     Lit (perEpisodeSuffix ctx), Lit '' is below minimum '',
                                     Num minSizeMb, Lit '' MB''])
                   else episodeMaxCheck p eff ctx)
         else (False, None))"

definition validateSize ::
  "ScoringProfile \<Rightarrow> int option \<Rightarrow> SizeValidationContext option \<Rightarrow> bool \<times> message option" where
  "validateSize p fileSizeBytes sizeContext =
     (case fileSizeBytes of
        None \<Rightarrow> (False, None)
      | Some bytes \<Rightarrow>
          (case sizeContext of
             None \<Rightarrow> (False, None)
           | Some ctx \<Rightarrow>
               if bytes > 0
               then (let fileSizeGb = of_int bytes / (1024 * 1024 * 1024);
                         fileSizeMb = of_int bytes / (1024 * 1024)
                     in case mediaType ctx of
                          Movie \<Rightarrow> validateMovieSize p fileSizeGb
                        | Tv \<Rightarrow> validateEpisodeSize p fileSizeMb ctx)
               else (False, None)))"

text \<open>
  Step 8 of \<^verbatim>\<open>scoreRelease\<close>, as a function to the pair
  \<open>(protocolRejected, protocolRejectionReason)\<close>.
\<close>

definition validateProtocol :: "ScoringProfile \<Rightarrow> Protocol option \<Rightarrow> bool \<times> string option" where
  "validateProtocol p protocol =
     (case protocol of
        None \<Rightarrow> (False, None)
      | Some pr \<Rightarrow>
          (case allowedProtocols p of
             None \<Rightarrow> (False, None)
           | Some allowed \<Rightarrow>
               if length allowed > 0 \<and> pr \<notin> set allowed
               then (True, Some (''Protocol '' @ [CHR 0x27] @ protocol_name pr @ [CHR 0x27]
                                 @ '' not allowed. Profile accepts: ''
                                 @ join_str '', '' (map protocol_name allowed)))
               else (False, None)))"

subsection \<open>The scorer\<close>

definition sumScores :: "ScoredFormat list \<Rightarrow> int" where
  "sumScores scored = foldl (\<lambda>sum f. sum + score f) 0 scored"

definition banScore :: "ScoredFormat \<Rightarrow> bool" where
  "banScore f = (score f \<le> - 999999)"

text \<open>
  \<^verbatim>\<open>scoreRelease\<close>. The debug logging between steps 3 and 4 changes nothing in the
  result and is left out.
\<close>

definition scoreRelease ::
  "Env \<Rightarrow> string \<Rightarrow> ScoringProfile \<Rightarrow> ReleaseAttributes option \<Rightarrow> int option
     \<Rightarrow> SizeValidationContext option \<Rightarrow> Protocol option \<Rightarrow> ScoringResult" where
  "scoreRelease env name p attributes fileSizeBytes sizeContext protocol =
     (let attrs = (case attributes of Some a \<Rightarrow> a | None \<Rightarrow> parseRelease env name);
          matched = matchFormats env attrs (ALL_FORMATS env);
          exclusive = applyMutualExclusivity matched p;
          scoredFormats = calculateFormatScores exclusive p;
          bd = buildBreakdown scoredFormats;
          total = sumScores scoredFormats;
          banned = list_ex banScore scoredFormats;
          reasons = map (\<lambda>f. format_name (format f)) (filter banScore scoredFormats);
          sizeCheck = validateSize p fileSizeBytes sizeContext;
          protocolCheck = validateProtocol p protocol;
          minimum = (case minScore p of None \<Rightarrow> 0 | Some m \<Rightarrow> m)
      in \<lparr>releaseName = name,
          profile = profile_name p,
          totalScore = (if banned then NegInf else Fin (of_int total)),
          matchedFormats = scoredFormats,
          breakdown = bd,
          meetsMinimum = (\<not> banned \<and> \<not> fst sizeCheck \<and> \<not> fst protocolCheck
                          \<and> of_int total \<ge> minimum),
          isBanned = banned,
          bannedReasons = reasons,
          sizeRejected = fst sizeCheck,
          sizeRejectionReason = snd sizeCheck,
          protocolRejected = fst protocolCheck,
          protocolRejectionReason = snd protocolCheck\<rparr>)"

datatype Winner = Release1 | Release2 | Tie

record Comparison =
  winner :: Winner
  release1Score :: ScoringResult
  release2Score :: ScoringResult
  scoreDifference :: number

definition compareReleases ::
  "Env \<Rightarrow> string \<Rightarrow> string \<Rightarrow> ScoringProfile \<Rightarrow> ReleaseAttributes option
     \<Rightarrow> ReleaseAttributes option \<Rightarrow> int option \<Rightarrow> int option \<Rightarrow> Comparison" where
  "compareReleases env release1 release2 p attrs1 attrs2 size1Bytes size2Bytes =
     (let score1 = scoreRelease env release1 p attrs1 size1Bytes None None;
          score2 = scoreRelease env release2 p attrs2 size2Bytes None None;
          diff = js_sub (totalScore score1) (totalScore score2)
      in \<lparr>winner = (if js_gt diff (Fin 0) then Release1
                    else if js_lt diff (Fin 0) then Release2
                    else Tie),
          release1Score = score1,
          release2Score = score2,
          scoreDifference = js_abs diff\<rparr>)"

record UpgradeOptions =
  minimumImprovement :: "number option"
  allowSidegrade :: "bool option"
  existingAttrs :: "ReleaseAttributes option"
  candidateAttrs :: "ReleaseAttributes option"
  existingSizeBytes :: "int option"
  candidateSizeBytes :: "int option"

text \<open>The default \<^verbatim>\<open>options = {}\<close>.\<close>

definition noOptions :: UpgradeOptions where
  "noOptions =
     \<lparr>minimumImprovement = None, allowSidegrade = None, existingAttrs = None,
      candidateAttrs = None, existingSizeBytes = None, candidateSizeBytes = None\<rparr>"

record UpgradeDecision =
  upgrade :: bool
  improvement :: number
  existing :: ScoringResult
  candidate :: ScoringResult

text \<open>
  \<^verbatim>\<open>isUpgrade\<close>; the field \<^verbatim>\<open>isUpgrade\<close> of its result is \<open>upgrade\<close> here.
\<close>

definition isUpgrade ::
  "Env \<Rightarrow> string \<Rightarrow> string \<Rightarrow> ScoringProfile \<Rightarrow> UpgradeOptions \<Rightarrow> UpgradeDecision" where
  "isUpgrade env existingRelease candidateRelease p options =
     (let minImprovement = (case minimumImprovement options of None \<Rightarrow> Fin 0 | Some m \<Rightarrow> m);
          sidegrade = (case allowSidegrade options of None \<Rightarrow> False | Some b \<Rightarrow> b);
          ex = scoreRelease env existingRelease p (existingAttrs options)
                 (existingSizeBytes options) None None;
          cand = scoreRelease env candidateRelease p (candidateAttrs options)
                   (candidateSizeBytes options) None None
      in if isBanned cand \<or> sizeRejected cand \<or> protocolRejected cand \<or> \<not> meetsMinimum cand
         then \<lparr>upgrade = False, improvement = Fin 0, existing = ex, candidate = cand\<rparr>
         else (let imp = js_sub (totalScore cand) (totalScore ex)
               in \<lparr>upgrade = (if sidegrade then js_ge imp minImprovement
                               else js_gt imp minImprovement),
                   improvement = imp, existing = ex, candidate = cand\<rparr>))"

subsection \<open>Notions used in the statements\<close>

text \<open>The sum of the nine subtotals of a breakdown.\<close>

definition bucketTotal :: "ScoreBreakdown \<Rightarrow> int" where
  "bucketTotal b =
     bucket_score (b K_resolution) + bucket_score (b K_source) + bucket_score (b K_codec)
     + bucket_score (b K_audio) + bucket_score (b K_hdr) + bucket_score (b K_streaming)
     + bucket_score (b K_releaseGroupTier) + bucket_score (b K_banned)
     + bucket_score (b K_enhancement)"

definition unmapped :: "ScoredFormat \<Rightarrow> bool" where
  "unmapped f = (categoryToBreakdownKey (category (format f)) = None)"

definition belowMinimum :: "rat option \<Rightarrow> rat \<Rightarrow> bool" where
  "belowMinimum bound x = (case bound of None \<Rightarrow> False | Some m \<Rightarrow> x < m)"

definition aboveMaximum :: "rat option \<Rightarrow> rat \<Rightarrow> bool" where
  "aboveMaximum bound x = (case bound of None \<Rightarrow> False | Some m \<Rightarrow> x > m)"

text \<open>
  The verdict the size validation reaches when it compares the figure \<open>x\<close> (in MB)
  against the episode limits of the profile: rejected iff a bound is violated, with the
  minimum checked first, and the reason built around the rounded figure.
\<close>

definition episodeVerdict ::
  "ScoringProfile \<Rightarrow> SizeValidationContext \<Rightarrow> rat \<Rightarrow> ScoringResult \<Rightarrow> bool" where
  "episodeVerdict p ctx x r =
     ((sizeRejected r = (belowMinimum (episodeMinSizeMb p) x \<or> aboveMaximum (episodeMaxSizeMb p) x))
      \<and> sizeRejectionReason r =
          (if belowMinimum (episodeMinSizeMb p) x
           then Some [Lit ''Episode size '', toFixed 0 x, Lit '' MB'', Lit (perEpisodeSuffix ctx),
                      Lit '' is below minimum '', Num (the (episodeMinSizeMb p)), Lit '' MB'']
           else if aboveMaximum (episodeMaxSizeMb p) x
           then Some [Lit ''Episode size '', toFixed 0 x, Lit '' MB'', Lit (perEpisodeSuffix ctx),
                      Lit '' exceeds maximum '', Num (the (episodeMaxSizeMb p)), Lit '' MB'']
           else None))"

subsection \<open>Example data\<close>

text \<open>
  A stand-in for the regular-expression engine: the pattern \<^verbatim>\<open>[invalid(\<close> does not
  compile, every other pattern is a literal text looked for in the subject.
\<close>

definition demoRegex :: "string \<Rightarrow> (string \<Rightarrow> bool) option" where
  "demoRegex p = (if p = ''[invalid('' then None else Some (includes_str p))"

definition demoAttrs :: "string \<Rightarrow> ReleaseAttributes" where
  "demoAttrs t =
     \<lparr>title = t, cleanTitle = ''Movie'', year = Some 2024, resolution = ''1080p'',
      source = ''webdl'', codec = ''h264'', hdr = None, audio = ''aac'',
      releaseGroup = None, streamingService = None, isRemux = Some False,
      isRepack = Some False, isProper = Some False, is3d = None,
      languages = [''english'']\<rparr>"

definition demoCondition :: "ConditionPayload \<Rightarrow> bool \<Rightarrow> bool \<Rightarrow> FormatCondition" where
  "demoCondition pl req neg =
     \<lparr>condition_name = ''Test Condition'', payload = pl, required = req, negate = neg\<rparr>"

definition demoFormat ::
  "string \<Rightarrow> string \<Rightarrow> FormatCategory \<Rightarrow> FormatCondition list \<Rightarrow> CustomFormat" where
  "demoFormat i n c cs =
     \<lparr>format_id = i, format_name = n, description = ''Test format description'',
      category = c, tags = [], conditions = cs\<rparr>"

definition demoFormats :: "CustomFormat list" where
  "demoFormats =
     [demoFormat ''hdr-generic'' ''HDR'' Cat_hdr [demoCondition (P_release_title ''HDR'') True False],
      demoFormat ''hdr-dolby-vision'' ''Dolby Vision'' Cat_hdr
        [demoCondition (P_release_title ''.DV.'') True False],
      demoFormat ''1080p-webdl'' ''1080p WEB-DL'' Cat_resolution
        [demoCondition (P_resolution ''1080p'') True False,
         demoCondition (P_source ''webdl'') True False],
      demoFormat ''720p-webdl'' ''720p WEB-DL'' Cat_resolution
        [demoCondition (P_resolution ''720p'') True False,
         demoCondition (P_source ''webdl'') True False],
      demoFormat ''banned-cam'' ''CAM'' Cat_banned
        [demoCondition (P_release_title ''.CAM.'') True False],
      demoFormat ''test-format'' ''Test Format'' Cat_other []]"

text \<open>A format with one required and two optional conditions.\<close>

definition demoOptional :: CustomFormat where
  "demoOptional =
     demoFormat ''optional'' ''Optional'' Cat_other
       [demoCondition (P_resolution ''1080p'') True False,
        demoCondition (P_hdr (Some ''dolby-vision'')) False False,
        demoCondition (P_release_title ''HDR'') False False]"

definition demoEnv :: Env where
  "demoEnv = \<lparr>regex = demoRegex, parseRelease = demoAttrs, ALL_FORMATS = demoFormats\<rparr>"

definition demoProfile :: ScoringProfile where
  "demoProfile =
     \<lparr>profile_id = ''balanced'', profile_name = ''Balanced'',
      formatScores = map_of [(''hdr-generic'', 100), (''hdr-dolby-vision'', 300),
                             (''1080p-webdl'', 500), (''720p-webdl'', 200),
                             (''banned-cam'', - 999999)],
      minScore = Some 0, movieMinSizeGb = None, movieMaxSizeGb = None,
      episodeMinSizeMb = Some 100, episodeMaxSizeMb = Some 800,
      allowedProtocols = None\<rparr>"

definition seasonPack :: "int option \<Rightarrow> SizeValidationContext" where
  "seasonPack n = \<lparr>mediaType = Tv, isSeasonPack = Some True, episodeCount = n\<rparr>"

definition singleEpisode :: SizeValidationContext where
  "singleEpisode = \<lparr>mediaType = Tv, isSeasonPack = Some False, episodeCount = None\<rparr>"

section \<open>Properties\<close>

subsection \<open>Auxiliary facts\<close>

lemma foldl_score: "foldl (\<lambda>sum f. sum + score f) a fs = a + sum_list (map score fs)"
  by (induction fs arbitrary: a) auto

lemma sumScores_sum_list: "sumScores fs = sum_list (map score fs)"
  by (simp add: sumScores_def foldl_score)

lemma sum_list_split:
  "sum_list (map score fs)
     = sum_list (map score (filter (\<lambda>f. \<not> unmapped f) fs)) + sum_list (map score (filter unmapped fs))"
  by (induction fs) auto

lemma bucketTotal_add:
  "bucketTotal (addToBreakdown b f) = bucketTotal b + (if unmapped f then 0 else score f)"
proof (cases "categoryToBreakdownKey (category (format f))")
  case None
  then show ?thesis by (simp add: addToBreakdown_def unmapped_def)
next
  case (Some k)
  then show ?thesis
    by (cases k) (simp_all add: addToBreakdown_def unmapped_def bucketTotal_def)
qed

lemma bucketTotal_foldl:
  "bucketTotal (foldl addToBreakdown b fs)
     = bucketTotal b + sum_list (map score (filter (\<lambda>f. \<not> unmapped f) fs))"
  by (induction fs arbitrary: b) (auto simp: bucketTotal_add)

lemma bucketTotal_build:
  "bucketTotal (buildBreakdown fs) = sum_list (map score (filter (\<lambda>f. \<not> unmapped f) fs))"
proof -
  have "bucketTotal emptyBreakdown = 0"
    by (simp add: emptyBreakdown_def bucketTotal_def)
  then show ?thesis
    by (simp add: buildBreakdown_def bucketTotal_foldl)
qed

lemma foldl_skips_unmapped:
  "foldl addToBreakdown b fs = foldl addToBreakdown b (filter (\<lambda>f. \<not> unmapped f) fs)"
  by (induction fs arbitrary: b) (auto simp: addToBreakdown_def unmapped_def)

lemma unmapped_other: "unmapped f \<longleftrightarrow> category (format f) = Cat_other"
  by (cases "category (format f)") (simp_all add: unmapped_def)

lemma js_ge_Fin: "js_ge (Fin a) (Fin b) \<longleftrightarrow> b \<le> a"
  by (auto simp: js_ge_def)

lemma matchedFormats_scoreRelease:
  "matchedFormats (scoreRelease env name p attrs bytes ctx proto)
     = calculateFormatScores
         (applyMutualExclusivity
            (matchFormats env (case attrs of Some a \<Rightarrow> a | None \<Rightarrow> parseRelease env name)
               (ALL_FORMATS env)) p) p"
  by (simp add: scoreRelease_def Let_def)

lemma isBanned_scoreRelease:
  "isBanned (scoreRelease env name p attrs bytes ctx proto)
     = list_ex banScore (matchedFormats (scoreRelease env name p attrs bytes ctx proto))"
  by (simp add: scoreRelease_def Let_def)

lemma bannedReasons_scoreRelease:
  "bannedReasons (scoreRelease env name p attrs bytes ctx proto)
     = map (\<lambda>f. format_name (format f))
         (filter banScore (matchedFormats (scoreRelease env name p attrs bytes ctx proto)))"
  by (simp add: scoreRelease_def Let_def)

lemma totalScore_scoreRelease:
  "totalScore (scoreRelease env name p attrs bytes ctx proto)
     = (if isBanned (scoreRelease env name p attrs bytes ctx proto) then NegInf
        else Fin (of_int (sumScores (matchedFormats (scoreRelease env name p attrs bytes ctx proto)))))"
  by (simp add: scoreRelease_def Let_def)

lemma breakdown_scoreRelease:
  "breakdown (scoreRelease env name p attrs bytes ctx proto)
     = buildBreakdown (matchedFormats (scoreRelease env name p attrs bytes ctx proto))"
  by (simp add: scoreRelease_def Let_def)

lemma sizeRejected_scoreRelease:
  "sizeRejected (scoreRelease env name p attrs bytes ctx proto) = fst (validateSize p bytes ctx)"
  by (simp add: scoreRelease_def Let_def)

lemma sizeRejectionReason_scoreRelease:
  "sizeRejectionReason (scoreRelease env name p attrs bytes ctx proto) = snd (validateSize p bytes ctx)"
  by (simp add: scoreRelease_def Let_def)

lemma protocolRejected_scoreRelease:
  "protocolRejected (scoreRelease env name p attrs bytes ctx proto) = fst (validateProtocol p proto)"
  by (simp add: scoreRelease_def Let_def)

lemma meetsMinimum_scoreRelease:
  "meetsMinimum (scoreRelease env name p attrs bytes ctx proto)
     = (\<not> isBanned (scoreRelease env name p attrs bytes ctx proto)
        \<and> \<not> sizeRejected (scoreRelease env name p attrs bytes ctx proto)
        \<and> \<not> protocolRejected (scoreRelease env name p attrs bytes ctx proto)
        \<and> (case minScore p of None \<Rightarrow> 0 | Some m \<Rightarrow> m)
            \<le> of_int (sumScores (matchedFormats (scoreRelease env name p attrs bytes ctx proto))))"
  by (simp add: scoreRelease_def Let_def)

lemma no_context_no_rejection:
  "\<not> sizeRejected (scoreRelease env name p attrs bytes None None)
   \<and> \<not> protocolRejected (scoreRelease env name p attrs bytes None None)"
  by (simp add: sizeRejected_scoreRelease protocolRejected_scoreRelease validateSize_def
        validateProtocol_def split: option.splits)

lemma banScore_eq: "banScore = (\<lambda>f. score f \<le> - 999999)"
  by (rule ext) (simp add: banScore_def)

lemma bestHdrLoop_started:
  "\<exists>b'. fst (bestHdrLoop hs (Some b, Fin (of_int (effectivePriority b)))) = Some b'
        \<and> (b' = b \<or> b' \<in> set hs)
        \<and> effectivePriority b' \<le> effectivePriority b
        \<and> (\<forall>h \<in> set hs. effectivePriority b' \<le> effectivePriority h)"
proof (induction hs arbitrary: b)
  case Nil
  then show ?case by simp
next
  case (Cons h hs)
  show ?case
  proof (cases "effectivePriority h < effectivePriority b")
    case True
    from Cons.IH [of h] obtain b' where
      "fst (bestHdrLoop hs (Some h, Fin (of_int (effectivePriority h)))) = Some b'"
      "b' = h \<or> b' \<in> set hs" "effectivePriority b' \<le> effectivePriority h"
      "\<forall>x \<in> set hs. effectivePriority b' \<le> effectivePriority x"
      by blast
    with True show ?thesis by auto
  next
    case False
    from Cons.IH [of b] obtain b' where
      "fst (bestHdrLoop hs (Some b, Fin (of_int (effectivePriority b)))) = Some b'"
      "b' = b \<or> b' \<in> set hs" "effectivePriority b' \<le> effectivePriority b"
      "\<forall>x \<in> set hs. effectivePriority b' \<le> effectivePriority x"
      by blast
    with False show ?thesis by auto
  qed
qed

lemma bestHdrLoop_initial:
  assumes "hs \<noteq> []"
  shows "\<exists>b. fst (bestHdrLoop hs (None, PosInf)) = Some b \<and> b \<in> set hs
             \<and> (\<forall>h \<in> set hs. effectivePriority b \<le> effectivePriority h)"
proof (cases hs)
  case Nil
  with assms show ?thesis by simp
next
  case (Cons h tl)
  from bestHdrLoop_started [of tl h] obtain b where
    "fst (bestHdrLoop tl (Some h, Fin (of_int (effectivePriority h)))) = Some b"
    "b = h \<or> b \<in> set tl" "effectivePriority b \<le> effectivePriority h"
    "\<forall>x \<in> set tl. effectivePriority b \<le> effectivePriority x"
    by blast
  with Cons show ?thesis by auto
qed

lemma indexOf_lower: "- 1 \<le> indexOf xs x"
  by (induction xs) (auto simp: Let_def)

lemma indexOf_absent: "indexOf xs x = - 1 \<longleftrightarrow> x \<notin> set xs"
proof (induction xs)
  case Nil show ?case by simp
next
  case (Cons y ys)
  from indexOf_lower [of ys x] have "indexOf ys x + 1 \<noteq> - 1" by linarith
  with Cons show ?case by (auto simp: Let_def)
qed

lemma indexOf_range: "x \<in> set xs \<Longrightarrow> 0 \<le> indexOf xs x \<and> indexOf xs x < int (length xs)"
  by (induction xs) (auto simp: Let_def)

lemma indexOf_nth: "x \<in> set xs \<Longrightarrow> xs ! nat (indexOf xs x) = x"
proof (induction xs)
  case Nil then show ?case by simp
next
  case (Cons y ys)
  show ?case
  proof (cases "y = x")
    case True then show ?thesis by simp
  next
    case False
    with Cons.prems have m: "x \<in> set ys" by simp
    from indexOf_range [OF m] have r: "0 \<le> indexOf ys x" by simp
    then have "indexOf ys x \<noteq> - 1" by linarith
    with False Cons.IH [OF m] r show ?thesis
      by (simp add: Let_def nat_add_distrib)
  qed
qed

lemma effectivePriority_listed:
  "format_id (format h) \<in> set HDR_PRIORITY \<Longrightarrow>
     effectivePriority h = indexOf HDR_PRIORITY (format_id (format h)) \<and> effectivePriority h < 10"
  using indexOf_range [of "format_id (format h)" HDR_PRIORITY] indexOf_absent [of HDR_PRIORITY "format_id (format h)"]
  by (auto simp: effectivePriority_def Let_def HDR_PRIORITY_def)

lemma effectivePriority_unlisted:
  "format_id (format h) \<notin> set HDR_PRIORITY \<Longrightarrow> effectivePriority h = 100"
  using indexOf_absent [of HDR_PRIORITY "format_id (format h)"]
  by (simp add: effectivePriority_def Let_def)

lemma bestHdr_of_many:
  assumes "length (filter isHdr matched) > 1"
  shows "\<exists>b. fst (bestHdrLoop (filter isHdr matched) (None, PosInf)) = Some b
           \<and> b \<in> set matched \<and> isHdr b
           \<and> (\<forall>h \<in> set matched. isHdr h \<longrightarrow> effectivePriority b \<le> effectivePriority h)"
proof -
  from assms have "filter isHdr matched \<noteq> []" by auto
  from bestHdrLoop_initial [OF this] show ?thesis by auto
qed

subsection \<open>Ban check\<close>

text \<open>
  C1. For every release and every profile, \<^verbatim>\<open>scoreRelease\<close> marks the result banned iff
  at least one matched format's profile-resolved score is at most \<open>-999999\<close>; when
  banned, the reported total score is \<open>-Infinity\<close> whatever the arithmetic sum is, and
  \<^verbatim>\<open>bannedReasons\<close> holds exactly the names of those formats. The score of each matched
  format is the profile's entry for its id, or zero without an entry.
\<close>

theorem scoreRelease_ban_check:
  "let r = scoreRelease env name p attrs bytes ctx proto
   in (isBanned r = (\<exists>f \<in> set (matchedFormats r). score f \<le> - 999999))
      \<and> (isBanned r \<longrightarrow> totalScore r = NegInf)
      \<and> bannedReasons r
          = map (\<lambda>f. format_name (format f)) (filter (\<lambda>f. score f \<le> - 999999) (matchedFormats r))
      \<and> (\<forall>f \<in> set (matchedFormats r).
            score f = (case formatScores p (format_id (format f)) of None \<Rightarrow> 0 | Some s \<Rightarrow> s))"
proof -
  have resolved: "\<forall>f \<in> set (calculateFormatScores ms p).
      score f = (case formatScores p (format_id (format f)) of None \<Rightarrow> 0 | Some s \<Rightarrow> s)" for ms
    by (auto simp: calculateFormatScores_def)
  show ?thesis
    unfolding Let_def
    by (simp add: isBanned_scoreRelease bannedReasons_scoreRelease totalScore_scoreRelease
          list_ex_iff banScore_eq)
       (simp add: matchedFormats_scoreRelease resolved)
qed

theorem scoreRelease_ban_check_witness:
  "isBanned (scoreRelease demoEnv ''Movie.CAM.x264'' demoProfile None None None None)
   \<and> totalScore (scoreRelease demoEnv ''Movie.CAM.x264'' demoProfile None None None None)
       = NegInf
   \<and> bannedReasons (scoreRelease demoEnv ''Movie.CAM.x264'' demoProfile None None None None)
       = [''CAM'']"
proof -
  have b: "isBanned (scoreRelease demoEnv ''Movie.CAM.x264'' demoProfile None None None None)"
    by code_simp
  have n: "bannedReasons (scoreRelease demoEnv ''Movie.CAM.x264'' demoProfile None None None None)
             = [''CAM'']"
    by code_simp
  from scoreRelease_ban_check [of demoEnv "''Movie.CAM.x264''" demoProfile None None None None] b n
  show ?thesis by (simp add: Let_def)
qed

subsection \<open>Final verdict\<close>

text \<open>
  C2. For every release, profile and optional size and protocol context, the result of
  \<^verbatim>\<open>scoreRelease\<close> satisfies \<^verbatim>\<open>meetsMinimum = !isBanned && !sizeRejected &&
  !protocolRejected && totalScore >= profile.minScore\<close>, an unset \<^verbatim>\<open>minScore\<close> counting as
  zero; so \<^verbatim>\<open>meetsMinimum\<close> implies that none of the three rejection flags is set.
\<close>

theorem scoreRelease_meetsMinimum:
  "let r = scoreRelease env name p attrs bytes ctx proto
   in (meetsMinimum r
         = (\<not> isBanned r \<and> \<not> sizeRejected r \<and> \<not> protocolRejected r
            \<and> js_ge (totalScore r) (Fin (case minScore p of None \<Rightarrow> 0 | Some m \<Rightarrow> m))))
      \<and> (meetsMinimum r \<longrightarrow> \<not> isBanned r \<and> \<not> sizeRejected r \<and> \<not> protocolRejected r)"
  unfolding Let_def
  by (auto simp: meetsMinimum_scoreRelease totalScore_scoreRelease js_ge_Fin)

theorem scoreRelease_meetsMinimum_witness:
  "meetsMinimum (scoreRelease demoEnv ''Movie.1080p.WEB-DL'' demoProfile None None None None)
   \<and> \<not> isBanned (scoreRelease demoEnv ''Movie.1080p.WEB-DL'' demoProfile None None None None)
   \<and> \<not> sizeRejected (scoreRelease demoEnv ''Movie.1080p.WEB-DL'' demoProfile None None None None)
   \<and> \<not> protocolRejected (scoreRelease demoEnv ''Movie.1080p.WEB-DL'' demoProfile None None None None)"
proof -
  have m: "meetsMinimum (scoreRelease demoEnv ''Movie.1080p.WEB-DL'' demoProfile None None None None)"
    by code_simp
  from scoreRelease_meetsMinimum [of demoEnv "''Movie.1080p.WEB-DL''" demoProfile None None None None] m
  show ?thesis by (simp add: Let_def)
qed

subsection \<open>Format evaluation\<close>

text \<open>
  C3. For every format and every release's attributes, \<^verbatim>\<open>evaluateFormat\<close> returns
  \<^verbatim>\<open>matches = true\<close> iff every required condition matches and, when there is at least one
  optional condition, at least one optional condition matches; so a format with an empty
  list of conditions always matches.
\<close>

theorem evaluateFormat_and_or:
  "(format_matches (evaluateFormat env f attrs)
      = ((\<forall>c \<in> set (conditions f). required c \<longrightarrow> matches (evaluateCondition env c attrs))
         \<and> ((\<exists>c \<in> set (conditions f). \<not> required c)
              \<longrightarrow> (\<exists>c \<in> set (conditions f). \<not> required c \<and> matches (evaluateCondition env c attrs)))))
   \<and> (conditions f = [] \<longrightarrow> format_matches (evaluateFormat env f attrs))"
proof -
  define ev where "ev = (\<lambda>c. evaluateCondition env c attrs)"
  define cs where "cs = conditions f"
  have c: "condition (ev c) = c" for c
    by (simp add: ev_def evaluateCondition_def Let_def)
  have req: "list_all matches (filter (\<lambda>r. required (condition r)) (map ev cs))
               = (\<forall>c \<in> set cs. required c \<longrightarrow> matches (ev c))"
    by (induction cs) (simp_all add: c)
  have none: "(filter (\<lambda>r. \<not> required (condition r)) (map ev cs) = [])
               = (\<not> (\<exists>c \<in> set cs. \<not> required c))"
    by (induction cs) (simp_all add: c)
  have some: "list_ex matches (filter (\<lambda>r. \<not> required (condition r)) (map ev cs))
               = (\<exists>c \<in> set cs. \<not> required c \<and> matches (ev c))"
    by (induction cs) (simp_all add: c)
  have "format_matches (evaluateFormat env f attrs)
          = (list_all matches (filter (\<lambda>r. required (condition r)) (map ev cs))
             \<and> (filter (\<lambda>r. \<not> required (condition r)) (map ev cs) = []
                  \<or> list_ex matches (filter (\<lambda>r. \<not> required (condition r)) (map ev cs))))"
    by (simp add: evaluateFormat_def Let_def ev_def cs_def)
  then have main: "format_matches (evaluateFormat env f attrs)
          = ((\<forall>c \<in> set cs. required c \<longrightarrow> matches (ev c))
             \<and> ((\<exists>c \<in> set cs. \<not> required c)
                  \<longrightarrow> (\<exists>c \<in> set cs. \<not> required c \<and> matches (ev c))))"
    unfolding req none some by blast
  have "cs = [] \<longrightarrow> format_matches (evaluateFormat env f attrs)"
    unfolding main by simp
  with main show ?thesis
    unfolding ev_def cs_def by blast
qed

theorem evaluateFormat_and_or_witness:
  "conditions (demoFormat ''test-format'' ''Test Format'' Cat_other []) = []
   \<and> format_matches (evaluateFormat demoEnv (demoFormat ''test-format'' ''Test Format'' Cat_other [])
        (demoAttrs ''Movie.2024''))
   \<and> list_ex (\<lambda>c. \<not> required c) (conditions demoOptional)
   \<and> format_matches (evaluateFormat demoEnv demoOptional (demoAttrs ''Movie.HDR''))
   \<and> \<not> format_matches (evaluateFormat demoEnv demoOptional (demoAttrs ''Movie.2024''))"
proof -
  have opt: "list_ex (\<lambda>c. \<not> required c) (conditions demoOptional)"
    by code_simp
  have yes: "format_matches (evaluateFormat demoEnv demoOptional (demoAttrs ''Movie.HDR''))"
    by code_simp
  have no: "\<not> format_matches (evaluateFormat demoEnv demoOptional (demoAttrs ''Movie.2024''))"
    by code_simp
  from evaluateFormat_and_or [of demoEnv "demoFormat ''test-format'' ''Test Format'' Cat_other []"
      "demoAttrs ''Movie.2024''"]
  have "conditions (demoFormat ''test-format'' ''Test Format'' Cat_other []) = []
   \<and> format_matches (evaluateFormat demoEnv (demoFormat ''test-format'' ''Test Format'' Cat_other [])
        (demoAttrs ''Movie.2024''))"
    by (simp add: demoFormat_def)
  with opt yes no show ?thesis by blast
qed

subsection \<open>Mutual exclusivity\<close>

text \<open>
  C4. For every list of matched formats, \<^verbatim>\<open>applyMutualExclusivity\<close> leaves the non-hdr
  matches unchanged, returns the list as it is when at most one hdr-category format
  matched, and otherwise keeps exactly one hdr-category format: one of least effective
  priority, which is the position of its id in the fixed list \<^verbatim>\<open>HDR_PRIORITY\<close> and lowest
  for an id that is not in the list. So if any matched hdr format is in the list, the
  kept one is the listed one whose id comes earliest.
\<close>

theorem applyMutualExclusivity_hdr:
  "filter (\<lambda>mf. \<not> isHdr mf) (applyMutualExclusivity matched p) = filter (\<lambda>mf. \<not> isHdr mf) matched
   \<and> (length (filter isHdr matched) \<le> 1 \<longrightarrow> applyMutualExclusivity matched p = matched)
   \<and> (length (filter isHdr matched) > 1 \<longrightarrow>
        (\<exists>b. filter isHdr (applyMutualExclusivity matched p) = [b]
            \<and> b \<in> set matched \<and> isHdr b
            \<and> (\<forall>h \<in> set matched. isHdr h \<longrightarrow> effectivePriority b \<le> effectivePriority h)
            \<and> (\<forall>h \<in> set matched. isHdr h \<longrightarrow> format_id (format h) \<in> set HDR_PRIORITY \<longrightarrow>
                  format_id (format b) \<in> set HDR_PRIORITY
                  \<and> indexOf HDR_PRIORITY (format_id (format b))
                      \<le> indexOf HDR_PRIORITY (format_id (format h)))))"
proof (cases "length (filter isHdr matched) > 1")
  case False
  then show ?thesis by (simp add: applyMutualExclusivity_def Let_def)
next
  case True
  from bestHdr_of_many [OF True] obtain b where
    b: "fst (bestHdrLoop (filter isHdr matched) (None, PosInf)) = Some b" "b \<in> set matched" "isHdr b"
      and least: "\<forall>h \<in> set matched. isHdr h \<longrightarrow> effectivePriority b \<le> effectivePriority h"
    by blast
  from True b have out: "applyMutualExclusivity matched p = filter (\<lambda>mf. \<not> isHdr mf) matched @ [b]"
    by (simp add: applyMutualExclusivity_def Let_def)
  have listed: "format_id (format b) \<in> set HDR_PRIORITY
                  \<and> indexOf HDR_PRIORITY (format_id (format b))
                      \<le> indexOf HDR_PRIORITY (format_id (format h))"
    if h: "h \<in> set matched" "isHdr h" "format_id (format h) \<in> set HDR_PRIORITY" for h
  proof -
    from least h have le: "effectivePriority b \<le> effectivePriority h" by blast
    from effectivePriority_listed [OF h(3)] have eh: "effectivePriority h = indexOf HDR_PRIORITY (format_id (format h))"
      "effectivePriority h < 10" by simp_all
    have inb: "format_id (format b) \<in> set HDR_PRIORITY"
    proof (rule ccontr)
      assume "format_id (format b) \<notin> set HDR_PRIORITY"
      from effectivePriority_unlisted [OF this] le eh show False by simp
    qed
    from effectivePriority_listed [OF inb] inb le eh show ?thesis by simp
  qed
  from out b least listed True show ?thesis by auto
qed

theorem applyMutualExclusivity_hdr_witness:
  "1 < length (filter isHdr
         (matchFormats demoEnv (demoAttrs ''Movie.DV.HDR.DDP5.1-GROUP'') demoFormats))
   \<and> (\<exists>b. filter isHdr (applyMutualExclusivity
              (matchFormats demoEnv (demoAttrs ''Movie.DV.HDR.DDP5.1-GROUP'') demoFormats)
              demoProfile) = [b]
          \<and> isHdr b)
   \<and> map (\<lambda>m. format_id (format m)) (applyMutualExclusivity
              (matchFormats demoEnv (demoAttrs ''Movie.DV.HDR.DDP5.1-GROUP'') demoFormats)
              demoProfile) = [''1080p-webdl'', ''test-format'', ''hdr-dolby-vision'']"
proof -
  have many: "1 < length (filter isHdr
         (matchFormats demoEnv (demoAttrs ''Movie.DV.HDR.DDP5.1-GROUP'') demoFormats))"
    by code_simp
  have ids: "map (\<lambda>m. format_id (format m)) (applyMutualExclusivity
              (matchFormats demoEnv (demoAttrs ''Movie.DV.HDR.DDP5.1-GROUP'') demoFormats)
              demoProfile) = [''1080p-webdl'', ''test-format'', ''hdr-dolby-vision'']"
    by code_simp
  from applyMutualExclusivity_hdr
         [of "matchFormats demoEnv (demoAttrs ''Movie.DV.HDR.DDP5.1-GROUP'') demoFormats"
             demoProfile] many
  have "\<exists>b. filter isHdr (applyMutualExclusivity
              (matchFormats demoEnv (demoAttrs ''Movie.DV.HDR.DDP5.1-GROUP'') demoFormats)
              demoProfile) = [b]
          \<and> isHdr b"
    by blast
  with many ids show ?thesis by blast
qed

subsection \<open>Episode size validation\<close>

text \<open>
  C5, as the code has it. For a TV-context scoring call with a file size and a size
  context: when the size is positive, the release is a season pack and the episode count
  is positive, the figure compared against the episode limits is the per-episode average
  (total MB divided by the count); when the release is a season pack and the count is
  absent or not positive, size validation is skipped and \<^verbatim>\<open>sizeRejected\<close> is false; when
  the size is positive and the release is no season pack, the figure is the total MB.
  Violating a bound sets \<^verbatim>\<open>sizeRejected\<close> with a reason built around the rounded figure.
  A size of zero or below is not validated at all.
\<close>

theorem scoreRelease_episode_size:
  assumes "mediaType ctx = Tv"
  shows "let r = scoreRelease env name p attrs (Some bytes) (Some ctx) proto;
             mb = of_int bytes / (1024 * 1024)
         in (\<forall>n. 0 < bytes \<and> isSeasonPack ctx = Some True \<and> episodeCount ctx = Some n \<and> 0 < n
                  \<longrightarrow> episodeVerdict p ctx (mb / of_int n) r)
            \<and> (isSeasonPack ctx = Some True
                 \<and> (episodeCount ctx = None \<or> (\<exists>n. episodeCount ctx = Some n \<and> n \<le> 0))
                  \<longrightarrow> \<not> sizeRejected r \<and> sizeRejectionReason r = None)
            \<and> (0 < bytes \<and> isSeasonPack ctx \<noteq> Some True \<longrightarrow> episodeVerdict p ctx mb r)
            \<and> (bytes \<le> 0 \<longrightarrow> \<not> sizeRejected r \<and> sizeRejectionReason r = None)"
proof -
  define mb :: rat where "mb = of_int bytes / (1024 * 1024)"
  define r where "r = scoreRelease env name p attrs (Some bytes) (Some ctx) proto"
  have check: "(sizeRejected r, sizeRejectionReason r)
                 = (if bytes > 0 then validateEpisodeSize p mb ctx else (False, None))"
    using assms
    by (simp add: r_def mb_def sizeRejected_scoreRelease sizeRejectionReason_scoreRelease
          validateSize_def Let_def)
  have verdict: "episodeVerdict p ctx x r"
    if "0 < bytes" "effectiveSizeMb mb ctx = x" "0 < x" for x
  proof -
    from check that have "(sizeRejected r, sizeRejectionReason r) = validateEpisodeSize p mb ctx"
      by simp
    with that show ?thesis
      by (auto simp: episodeVerdict_def validateEpisodeSize_def episodeMaxCheck_def Let_def
            belowMinimum_def aboveMaximum_def split: option.splits if_splits)
  qed
  have skipped: "\<not> sizeRejected r \<and> sizeRejectionReason r = None"
    if "effectiveSizeMb mb ctx = - 1"
    using check that by (simp add: validateEpisodeSize_def Let_def split: if_splits)
  have a: "episodeVerdict p ctx (mb / of_int n) r"
    if "0 < bytes" "isSeasonPack ctx = Some True" "episodeCount ctx = Some n" "0 < n" for n
  proof -
    from that have "0 < mb" by (simp add: mb_def)
    with that have "0 < mb / of_int n" by simp
    moreover from that have "effectiveSizeMb mb ctx = mb / of_int n"
      by (simp add: effectiveSizeMb_def)
    ultimately show ?thesis using that(1) by (rule_tac verdict) simp_all
  qed
  have b: "\<not> sizeRejected r \<and> sizeRejectionReason r = None"
    if "isSeasonPack ctx = Some True"
       "episodeCount ctx = None \<or> (\<exists>n. episodeCount ctx = Some n \<and> n \<le> 0)"
  proof -
    from that have "effectiveSizeMb mb ctx = - 1"
      by (auto simp: effectiveSizeMb_def)
    then show ?thesis by (rule skipped)
  qed
  have c: "episodeVerdict p ctx mb r" if "0 < bytes" "isSeasonPack ctx \<noteq> Some True"
  proof -
    from that have "0 < mb" by (simp add: mb_def)
    moreover from that have "effectiveSizeMb mb ctx = mb"
      by (simp add: effectiveSizeMb_def)
    ultimately show ?thesis using that(1) by (rule_tac verdict) simp_all
  qed
  have d: "\<not> sizeRejected r \<and> sizeRejectionReason r = None" if "bytes \<le> 0"
    using check that by simp
  from a b c d show ?thesis
    unfolding Let_def mb_def [symmetric] r_def [symmetric] by blast
qed

theorem scoreRelease_episode_size_witness:
  "mediaType (seasonPack (Some 10)) = Tv
   \<and> isSeasonPack (seasonPack (Some 10)) = Some True
   \<and> episodeCount (seasonPack (Some 10)) = Some 10
   \<and> sizeRejected (scoreRelease demoEnv ''Show.S01'' demoProfile None (Some (10 * 1024 * 1024 * 1024))
          (Some (seasonPack (Some 10))) None)
   \<and> sizeRejectionReason (scoreRelease demoEnv ''Show.S01'' demoProfile None
          (Some (10 * 1024 * 1024 * 1024)) (Some (seasonPack (Some 10))) None)
       = Some [Lit ''Episode size '', Lit ''1024'', Lit '' MB'', Lit '' per episode (avg)'',
               Lit '' exceeds maximum '', Num 800, Lit '' MB'']
   \<and> episodeCount (seasonPack (Some 0)) = Some 0
   \<and> \<not> sizeRejected (scoreRelease demoEnv ''Show.S01'' demoProfile None
            (Some (10 * 1024 * 1024 * 1024)) (Some (seasonPack (Some 0))) None)"
proof -
  have tv: "mediaType (seasonPack n) = Tv" for n
    by (simp add: seasonPack_def)
  have fig: "toFixed 0 1024 = Lit ''1024''"
    by code_simp
  from scoreRelease_episode_size [OF tv, of demoEnv "''Show.S01''" demoProfile None
         "10 * 1024 * 1024 * 1024" "Some 10" None]
  have "episodeVerdict demoProfile (seasonPack (Some 10)) 1024
          (scoreRelease demoEnv ''Show.S01'' demoProfile None (Some (10 * 1024 * 1024 * 1024))
             (Some (seasonPack (Some 10))) None)"
    by (simp add: Let_def seasonPack_def)
  then have rejected:
    "sizeRejected (scoreRelease demoEnv ''Show.S01'' demoProfile None (Some (10 * 1024 * 1024 * 1024))
          (Some (seasonPack (Some 10))) None)
     \<and> sizeRejectionReason (scoreRelease demoEnv ''Show.S01'' demoProfile None
          (Some (10 * 1024 * 1024 * 1024)) (Some (seasonPack (Some 10))) None)
       = Some [Lit ''Episode size '', Lit ''1024'', Lit '' MB'', Lit '' per episode (avg)'',
               Lit '' exceeds maximum '', Num 800, Lit '' MB'']"
    by (simp add: episodeVerdict_def belowMinimum_def aboveMaximum_def demoProfile_def
          seasonPack_def perEpisodeSuffix_def fig)
  from scoreRelease_episode_size [OF tv, of demoEnv "''Show.S01''" demoProfile None
         "10 * 1024 * 1024 * 1024" "Some 0" None]
  have skipped: "\<not> sizeRejected (scoreRelease demoEnv ''Show.S01'' demoProfile None
            (Some (10 * 1024 * 1024 * 1024)) (Some (seasonPack (Some 0))) None)"
    by (simp add: Let_def seasonPack_def)
  from rejected skipped show ?thesis
    by (simp add: seasonPack_def)
qed

text \<open>
  The claim as stated fails for a supplied size of zero: the single episode below is
  under the minimum of 100 MB and yet not rejected.
\<close>

theorem scoreRelease_episode_size_counterexample:
  "mediaType singleEpisode = Tv
   \<and> belowMinimum (episodeMinSizeMb demoProfile) (of_int 0 / (1024 * 1024))
   \<and> \<not> sizeRejected (scoreRelease demoEnv ''Show.S01E01'' demoProfile None (Some 0)
            (Some singleEpisode) None)"
  by (simp add: sizeRejected_scoreRelease validateSize_def singleEpisode_def belowMinimum_def
        demoProfile_def)

subsection \<open>Upgrade decision\<close>

lemma existing_isUpgrade:
  "existing (isUpgrade env ex cand p opts)
     = scoreRelease env ex p (existingAttrs opts) (existingSizeBytes opts) None None"
  by (simp add: isUpgrade_def Let_def)

lemma candidate_isUpgrade:
  "candidate (isUpgrade env ex cand p opts)
     = scoreRelease env cand p (candidateAttrs opts) (candidateSizeBytes opts) None None"
  by (simp add: isUpgrade_def Let_def)

text \<open>
  C6. For every existing and candidate release, profile and options, \<^verbatim>\<open>isUpgrade\<close>
  scores both releases and answers \<^verbatim>\<open>isUpgrade = false\<close> whenever the candidate's result
  is banned, size-rejected, protocol-rejected or fails \<^verbatim>\<open>meetsMinimum\<close>, without any
  score arithmetic; otherwise \<^verbatim>\<open>improvement\<close> is the candidate's total score minus the
  existing one's, and \<^verbatim>\<open>isUpgrade\<close> is \<^verbatim>\<open>improvement >= minimumImprovement\<close> when
  sidegrades are allowed and \<^verbatim>\<open>improvement > minimumImprovement\<close> when not, with the
  defaults \<^verbatim>\<open>minimumImprovement = 0\<close> and \<^verbatim>\<open>allowSidegrade = false\<close>.
\<close>

theorem isUpgrade_decision:
  "let d = isUpgrade env ex cand p opts;
       c = candidate d;
       e = existing d;
       minImprovement = (case minimumImprovement opts of None \<Rightarrow> Fin 0 | Some m \<Rightarrow> m);
       sidegrade = (case allowSidegrade opts of None \<Rightarrow> False | Some b \<Rightarrow> b)
   in c = scoreRelease env cand p (candidateAttrs opts) (candidateSizeBytes opts) None None
      \<and> e = scoreRelease env ex p (existingAttrs opts) (existingSizeBytes opts) None None
      \<and> (isBanned c \<or> sizeRejected c \<or> protocolRejected c \<or> \<not> meetsMinimum c
            \<longrightarrow> \<not> upgrade d \<and> improvement d = Fin 0)
      \<and> (\<not> (isBanned c \<or> sizeRejected c \<or> protocolRejected c \<or> \<not> meetsMinimum c)
            \<longrightarrow> improvement d = js_sub (totalScore c) (totalScore e)
                \<and> upgrade d = (if sidegrade then js_ge (improvement d) minImprovement
                                else js_gt (improvement d) minImprovement))"
  unfolding Let_def existing_isUpgrade candidate_isUpgrade
  by (simp add: isUpgrade_def Let_def)

theorem isUpgrade_decision_witness:
  "\<not> upgrade (isUpgrade demoEnv ''Movie.1080p'' ''Movie.CAM.x264'' demoProfile noOptions)
   \<and> isBanned (candidate (isUpgrade demoEnv ''Movie.1080p'' ''Movie.CAM.x264'' demoProfile noOptions))
   \<and> upgrade (isUpgrade demoEnv ''Movie.1080p'' ''Movie.HDR'' demoProfile noOptions)
   \<and> improvement (isUpgrade demoEnv ''Movie.1080p'' ''Movie.HDR'' demoProfile noOptions) = Fin 100
   \<and> \<not> upgrade (isUpgrade demoEnv ''Movie.HDR'' ''Movie.HDR'' demoProfile noOptions)
   \<and> upgrade (isUpgrade demoEnv ''Movie.HDR'' ''Movie.HDR'' demoProfile
                 (noOptions\<lparr>allowSidegrade := Some True\<rparr>))"
proof -
  have b: "isBanned (candidate (isUpgrade demoEnv ''Movie.1080p'' ''Movie.CAM.x264'' demoProfile noOptions))"
    by code_simp
  have ok: "meetsMinimum (candidate (isUpgrade demoEnv ''Movie.1080p'' ''Movie.HDR'' demoProfile noOptions))"
    by code_simp
  have t1: "totalScore (candidate (isUpgrade demoEnv ''Movie.1080p'' ''Movie.HDR'' demoProfile noOptions))
              = Fin 600"
    by code_simp
  have t2: "totalScore (existing (isUpgrade demoEnv ''Movie.1080p'' ''Movie.HDR'' demoProfile noOptions))
              = Fin 500"
    by code_simp
  have first: "\<not> upgrade (isUpgrade demoEnv ''Movie.1080p'' ''Movie.CAM.x264'' demoProfile noOptions)"
    using isUpgrade_decision [of demoEnv "''Movie.1080p''" "''Movie.CAM.x264''" demoProfile noOptions] b
    by (simp add: Let_def)
  have second: "upgrade (isUpgrade demoEnv ''Movie.1080p'' ''Movie.HDR'' demoProfile noOptions)
      \<and> improvement (isUpgrade demoEnv ''Movie.1080p'' ''Movie.HDR'' demoProfile noOptions) = Fin 100"
    using isUpgrade_decision [of demoEnv "''Movie.1080p''" "''Movie.HDR''" demoProfile noOptions]
      ok t1 t2 meetsMinimum_scoreRelease
    by (simp add: Let_def noOptions_def js_gt_def)
  have third: "\<not> upgrade (isUpgrade demoEnv ''Movie.HDR'' ''Movie.HDR'' demoProfile noOptions)"
    by code_simp
  have fourth: "upgrade (isUpgrade demoEnv ''Movie.HDR'' ''Movie.HDR'' demoProfile
                 (noOptions\<lparr>allowSidegrade := Some True\<rparr>))"
    by code_simp
  from b first second third fourth show ?thesis by blast
qed

text \<open>
  C10. \<^verbatim>\<open>isUpgrade\<close> calls \<^verbatim>\<open>scoreRelease\<close> without a size context and without a
  protocol, and \<^verbatim>\<open>scoreRelease\<close> validates the size only with a size context and the
  protocol only with a protocol. So for every pair of releases, every profile and every
  options value, supplied sizes included, the existing and the candidate result inside
  \<^verbatim>\<open>isUpgrade\<close> have \<^verbatim>\<open>sizeRejected = false\<close> and \<^verbatim>\<open>protocolRejected = false\<close>, and the
  guard on the candidate fires exactly when the candidate is banned or fails
  \<^verbatim>\<open>meetsMinimum\<close>.
\<close>

theorem isUpgrade_never_size_or_protocol_rejected:
  "let d = isUpgrade env ex cand p opts; c = candidate d; e = existing d
   in \<not> sizeRejected c \<and> \<not> protocolRejected c \<and> \<not> sizeRejected e \<and> \<not> protocolRejected e
      \<and> sizeRejectionReason c = None \<and> protocolRejectionReason c = None
      \<and> ((isBanned c \<or> sizeRejected c \<or> protocolRejected c \<or> \<not> meetsMinimum c)
           = (isBanned c \<or> \<not> meetsMinimum c))"
proof -
  have none: "sizeRejectionReason (scoreRelease env n p a b None None) = None
              \<and> protocolRejectionReason (scoreRelease env n p a b None None) = None" for n a b
    by (simp add: scoreRelease_def Let_def validateSize_def validateProtocol_def split: option.splits)
  show ?thesis
    unfolding Let_def existing_isUpgrade candidate_isUpgrade
    using no_context_no_rejection none by simp
qed

theorem isUpgrade_never_size_or_protocol_rejected_witness:
  "candidateSizeBytes (noOptions\<lparr>candidateSizeBytes := Some 1\<rparr>) = Some 1
   \<and> \<not> sizeRejected (candidate (isUpgrade demoEnv ''Movie.1080p'' ''Movie.HDR'' demoProfile
            (noOptions\<lparr>candidateSizeBytes := Some 1\<rparr>)))
   \<and> \<not> protocolRejected (candidate (isUpgrade demoEnv ''Movie.1080p'' ''Movie.HDR'' demoProfile
            (noOptions\<lparr>candidateSizeBytes := Some 1\<rparr>)))"
  using isUpgrade_never_size_or_protocol_rejected [of demoEnv "''Movie.1080p''" "''Movie.HDR''"
      demoProfile "noOptions\<lparr>candidateSizeBytes := Some 1\<rparr>"]
  by (simp add: Let_def)

subsection \<open>Comparison\<close>

lemma release1Score_compareReleases:
  "release1Score (compareReleases env r1 r2 p a1 a2 s1 s2) = scoreRelease env r1 p a1 s1 None None"
  by (simp add: compareReleases_def Let_def)

lemma release2Score_compareReleases:
  "release2Score (compareReleases env r1 r2 p a1 a2 s1 s2) = scoreRelease env r2 p a2 s2 None None"
  by (simp add: compareReleases_def Let_def)

lemma winner_by_difference:
  assumes "a = NegInf \<or> (\<exists>x. a = Fin x)" and "b = NegInf \<or> (\<exists>y. b = Fin y)"
  shows "js_gt (js_sub a b) (Fin 0) = js_gt a b"
    and "js_lt (js_sub a b) (Fin 0) = js_lt a b"
    and "(\<not> js_gt (js_sub a b) (Fin 0) \<and> \<not> js_lt (js_sub a b) (Fin 0)) = (a = b)"
  using assms by (auto simp: js_gt_def)

text \<open>
  C8. For every two releases and every profile, \<^verbatim>\<open>compareReleases\<close> scores both and
  returns the winner \<^verbatim>\<open>release1\<close> iff the first total score is strictly greater than the
  second, \<^verbatim>\<open>release2\<close> iff it is strictly smaller, and \<^verbatim>\<open>tie\<close> iff the two are equal,
  also when both are \<open>-Infinity\<close>.
\<close>

theorem compareReleases_winner:
  "let c = compareReleases env r1 r2 p a1 a2 s1 s2;
       t1 = totalScore (release1Score c);
       t2 = totalScore (release2Score c)
   in release1Score c = scoreRelease env r1 p a1 s1 None None
      \<and> release2Score c = scoreRelease env r2 p a2 s2 None None
      \<and> (winner c = Release1) = js_gt t1 t2
      \<and> (winner c = Release2) = js_lt t1 t2
      \<and> (winner c = Tie) = (t1 = t2)
      \<and> (t1 = NegInf \<and> t2 = NegInf \<longrightarrow> winner c = Tie)"
proof -
  define x where "x = totalScore (scoreRelease env r1 p a1 s1 None None)"
  define y where "y = totalScore (scoreRelease env r2 p a2 s2 None None)"
  have sx: "x = NegInf \<or> (\<exists>v. x = Fin v)"
    unfolding x_def totalScore_scoreRelease by simp
  have sy: "y = NegInf \<or> (\<exists>v. y = Fin v)"
    unfolding y_def totalScore_scoreRelease by simp
  have w: "winner (compareReleases env r1 r2 p a1 a2 s1 s2)
             = (if js_gt (js_sub x y) (Fin 0) then Release1
                else if js_lt (js_sub x y) (Fin 0) then Release2 else Tie)"
    by (simp add: compareReleases_def Let_def x_def y_def)
  have excl: "\<not> (js_gt x y \<and> js_lt x y)"
    using sx sy by (auto simp: js_gt_def)
  from winner_by_difference [OF sx sy] w excl
  have "(winner (compareReleases env r1 r2 p a1 a2 s1 s2) = Release1) = js_gt x y
        \<and> (winner (compareReleases env r1 r2 p a1 a2 s1 s2) = Release2) = js_lt x y
        \<and> (winner (compareReleases env r1 r2 p a1 a2 s1 s2) = Tie) = (x = y)"
    by (auto split: if_splits)
  then show ?thesis
    unfolding Let_def release1Score_compareReleases release2Score_compareReleases
      x_def [symmetric] y_def [symmetric]
    by simp
qed

theorem compareReleases_winner_witness:
  "totalScore (release1Score (compareReleases demoEnv ''A.CAM.x'' ''B.CAM.x'' demoProfile
       None None None None)) = NegInf
   \<and> totalScore (release2Score (compareReleases demoEnv ''A.CAM.x'' ''B.CAM.x'' demoProfile
       None None None None)) = NegInf
   \<and> winner (compareReleases demoEnv ''A.CAM.x'' ''B.CAM.x'' demoProfile None None None None) = Tie
   \<and> winner (compareReleases demoEnv ''A.HDR'' ''B.CAM.x'' demoProfile None None None None) = Release1
   \<and> winner (compareReleases demoEnv ''A'' ''B.HDR'' demoProfile None None None None) = Release2"
proof -
  have t1: "totalScore (release1Score (compareReleases demoEnv ''A.CAM.x'' ''B.CAM.x'' demoProfile
       None None None None)) = NegInf"
    by code_simp
  have t2: "totalScore (release2Score (compareReleases demoEnv ''A.CAM.x'' ''B.CAM.x'' demoProfile
       None None None None)) = NegInf"
    by code_simp
  from compareReleases_winner [of demoEnv "''A.CAM.x''" "''B.CAM.x''" demoProfile None None None None]
    t1 t2
  have tie: "winner (compareReleases demoEnv ''A.CAM.x'' ''B.CAM.x'' demoProfile None None None None) = Tie"
    by (simp add: Let_def)
  have u1: "totalScore (release1Score (compareReleases demoEnv ''A.HDR'' ''B.CAM.x'' demoProfile
       None None None None)) = Fin 600"
    by code_simp
  have u2: "totalScore (release2Score (compareReleases demoEnv ''A.HDR'' ''B.CAM.x'' demoProfile
       None None None None)) = NegInf"
    by code_simp
  from compareReleases_winner [of demoEnv "''A.HDR''" "''B.CAM.x''" demoProfile None None None None]
    u1 u2
  have first: "winner (compareReleases demoEnv ''A.HDR'' ''B.CAM.x'' demoProfile None None None None)
                 = Release1"
    by (simp add: Let_def js_gt_def)
  have v1: "totalScore (release1Score (compareReleases demoEnv ''A'' ''B.HDR'' demoProfile
       None None None None)) = Fin 500"
    by code_simp
  have v2: "totalScore (release2Score (compareReleases demoEnv ''A'' ''B.HDR'' demoProfile
       None None None None)) = Fin 600"
    by code_simp
  from compareReleases_winner [of demoEnv "''A''" "''B.HDR''" demoProfile None None None None]
    v1 v2
  have second: "winner (compareReleases demoEnv ''A'' ''B.HDR'' demoProfile None None None None)
                  = Release2"
    by (simp add: Let_def)
  from t1 t2 tie first second show ?thesis by blast
qed

subsection \<open>Breakdown and total\<close>

text \<open>
  C9, as the code has it. For every scoring call, a matched format of category
  \<^verbatim>\<open>other\<close>, the one category without a bucket, contributes its profile score to the
  arithmetic total and is added to no bucket: the breakdown is the one built from the
  other matched formats alone. So the sum of the nine subtotals is the sum of all matched
  scores minus the scores of the matched \<^verbatim>\<open>other\<close> formats; it equals the reported total
  whenever the release is not banned and every matched format's category has a bucket.
\<close>

theorem breakdown_skips_other:
  "let r = scoreRelease env name p attrs bytes ctx proto; fs = matchedFormats r
   in (\<forall>f \<in> set fs. unmapped f = (category (format f) = Cat_other))
      \<and> breakdown r = buildBreakdown (filter (\<lambda>f. \<not> unmapped f) fs)
      \<and> totalScore r = (if isBanned r then NegInf else Fin (of_int (sum_list (map score fs))))
      \<and> bucketTotal (breakdown r)
          = sum_list (map score fs) - sum_list (map score (filter unmapped fs))
      \<and> (\<not> isBanned r \<and> (\<forall>f \<in> set fs. \<not> unmapped f)
            \<longrightarrow> Fin (of_int (bucketTotal (breakdown r))) = totalScore r)"
proof -
  define r where "r = scoreRelease env name p attrs bytes ctx proto"
  define fs where "fs = matchedFormats r"
  have c1: "\<forall>f \<in> set fs. unmapped f = (category (format f) = Cat_other)"
    by (simp add: unmapped_other)
  have b: "breakdown r = buildBreakdown fs"
    by (simp add: breakdown_scoreRelease fs_def r_def)
  have "buildBreakdown fs = buildBreakdown (filter (\<lambda>f. \<not> unmapped f) fs)"
    unfolding buildBreakdown_def by (rule foldl_skips_unmapped)
  with b have c2: "breakdown r = buildBreakdown (filter (\<lambda>f. \<not> unmapped f) fs)"
    by simp
  have c3: "totalScore r = (if isBanned r then NegInf else Fin (of_int (sum_list (map score fs))))"
    by (simp add: totalScore_scoreRelease sumScores_sum_list fs_def r_def)
  have "bucketTotal (buildBreakdown fs)
          = sum_list (map score fs) - sum_list (map score (filter unmapped fs))"
    using sum_list_split [of fs] by (simp add: bucketTotal_build)
  with b have c4: "bucketTotal (breakdown r)
                     = sum_list (map score fs) - sum_list (map score (filter unmapped fs))"
    by simp
  have c5: "Fin (of_int (bucketTotal (breakdown r))) = totalScore r"
    if "\<not> isBanned r" "\<forall>f \<in> set fs. \<not> unmapped f"
  proof -
    from that(2) have "filter unmapped fs = []" by (simp add: filter_empty_conv)
    with c4 have "bucketTotal (breakdown r) = sum_list (map score fs)" by simp
    with c3 that(1) show ?thesis by simp
  qed
  from c1 c2 c3 c4 c5 show ?thesis
    unfolding Let_def r_def [symmetric] fs_def [symmetric] by blast
qed

theorem breakdown_skips_other_witness:
  "\<not> isBanned (scoreRelease (demoEnv\<lparr>ALL_FORMATS := butlast demoFormats\<rparr>) ''Movie.DV.HDR''
        demoProfile None None None None)
   \<and> list_all (\<lambda>f. \<not> unmapped f)
        (matchedFormats (scoreRelease (demoEnv\<lparr>ALL_FORMATS := butlast demoFormats\<rparr>)
           ''Movie.DV.HDR'' demoProfile None None None None))
   \<and> totalScore (scoreRelease (demoEnv\<lparr>ALL_FORMATS := butlast demoFormats\<rparr>) ''Movie.DV.HDR''
        demoProfile None None None None) = Fin 800
   \<and> bucketTotal (breakdown (scoreRelease (demoEnv\<lparr>ALL_FORMATS := butlast demoFormats\<rparr>)
        ''Movie.DV.HDR'' demoProfile None None None None)) = 800"
proof -
  have nb: "\<not> isBanned (scoreRelease (demoEnv\<lparr>ALL_FORMATS := butlast demoFormats\<rparr>) ''Movie.DV.HDR''
        demoProfile None None None None)"
    by code_simp
  have every: "list_all (\<lambda>f. \<not> unmapped f)
          (matchedFormats (scoreRelease (demoEnv\<lparr>ALL_FORMATS := butlast demoFormats\<rparr>)
             ''Movie.DV.HDR'' demoProfile None None None None))"
    by code_simp
  then have mapped: "\<forall>f \<in> set (matchedFormats (scoreRelease (demoEnv\<lparr>ALL_FORMATS := butlast demoFormats\<rparr>)
          ''Movie.DV.HDR'' demoProfile None None None None)). \<not> unmapped f"
    by (simp add: list_all_iff)
  have total: "totalScore (scoreRelease (demoEnv\<lparr>ALL_FORMATS := butlast demoFormats\<rparr>) ''Movie.DV.HDR''
        demoProfile None None None None) = Fin 800"
    by code_simp
  from breakdown_skips_other [of "demoEnv\<lparr>ALL_FORMATS := butlast demoFormats\<rparr>" "''Movie.DV.HDR''"
         demoProfile None None None None] nb mapped
  have "Fin (of_int (bucketTotal (breakdown (scoreRelease (demoEnv\<lparr>ALL_FORMATS := butlast demoFormats\<rparr>)
          ''Movie.DV.HDR'' demoProfile None None None None))))
        = totalScore (scoreRelease (demoEnv\<lparr>ALL_FORMATS := butlast demoFormats\<rparr>) ''Movie.DV.HDR''
            demoProfile None None None None)"
    unfolding Let_def by blast
  with total have "bucketTotal (breakdown (scoreRelease (demoEnv\<lparr>ALL_FORMATS := butlast demoFormats\<rparr>)
        ''Movie.DV.HDR'' demoProfile None None None None)) = 800"
    by simp
  with nb every total show ?thesis by blast
qed

text \<open>
  The claim as stated fails where a format without a bucket scores zero: the release
  below matches the format \<^verbatim>\<open>test-format\<close> of category \<^verbatim>\<open>other\<close>, for which the profile
  has no score, and the nine subtotals still add up to the total.
\<close>

theorem breakdown_skips_other_counterexample:
  "map (categoryToBreakdownKey \<circ> category \<circ> format)
        (matchedFormats (scoreRelease demoEnv ''Movie.1080p'' demoProfile None None None None))
       = [Some K_resolution, None]
   \<and> totalScore (scoreRelease demoEnv ''Movie.1080p'' demoProfile None None None None) = Fin 500
   \<and> bucketTotal (breakdown (scoreRelease demoEnv ''Movie.1080p'' demoProfile None None None None))
       = 500"
  by code_simp

end
